theory Spec2Isabelle
  imports Complex_Main "HOL-Library.Sublist"
begin

section \<open>Values and text\<close>

text \<open>
  The functions of \<^verbatim>\<open>src/utils/textAnalysis.ts\<close> and
  \<^verbatim>\<open>src/utils/documentChunking.ts\<close> are declared on strings (or on \<^verbatim>\<open>any\<close>) and test
  the run-time type of their argument. A value is therefore a string, an object or
  anything else. An object carries the text that \<^verbatim>\<open>JSON.stringify(v, null, 2)\<close> renders
  for it, any other value the text that \<^verbatim>\<open>String(v)\<close> renders: both renderers belong to
  the language, not to the repository.

  A string is a list of code units; its \<^verbatim>\<open>length\<close> counts them. The characters of HOL
  cover the code units 0 to 255, and \<open>is_space\<close> is the class \<^verbatim>\<open>\s\<close> (which is also
  what \<^verbatim>\<open>trim\<close> strips) on that range.
\<close>

datatype js_value = JString string | JObject string | JOther string

definition is_space :: "char \<Rightarrow> bool" where
  "is_space c \<longleftrightarrow>
     c = CHR 0x09 \<or> c = CHR 0x0A \<or> c = CHR 0x0B \<or> c = CHR 0x0C \<or> c = CHR 0x0D \<or>
     c = CHR '' '' \<or> c = CHR 0xA0"

text \<open>\<^verbatim>\<open>String.prototype.trim\<close>: white space is removed from both ends.\<close>

definition trim :: "string \<Rightarrow> string" where
  "trim s = rev (dropWhile is_space (rev (dropWhile is_space s)))"

text \<open>
  \<^verbatim>\<open>s.split(/\s+/)\<close>: the pieces of \<open>s\<close> between its maximal runs of white space. A run
  at the very start or end of \<open>s\<close> leaves an empty piece there, and the empty string
  splits into one empty piece.
\<close>

function split_ws :: "string \<Rightarrow> string list" where
  "split_ws s =
     (let piece = takeWhile (\<lambda>c. \<not> is_space c) s;
          rest = dropWhile (\<lambda>c. \<not> is_space c) s
      in if rest = [] then [piece] else piece # split_ws (dropWhile is_space rest))"
  by pat_completeness auto

termination split_ws
proof (relation "measure length")
  show "wf (measure length)" by simp
next
  fix s :: string and piece rest
  assume rest: "rest = dropWhile (\<lambda>c. \<not> is_space c) s" and ne: "rest \<noteq> []"
  from ne rest have "is_space (hd rest)"
    using hd_dropWhile[of "\<lambda>c. \<not> is_space c" s] by simp
  then have "dropWhile is_space rest = dropWhile is_space (tl rest)"
    using ne by (cases rest) auto
  then have "length (dropWhile is_space rest) \<le> length (tl rest)"
    using length_dropWhile_le[of is_space "tl rest"] by metis
  also have "\<dots> < length rest" using ne by (cases rest) auto
  also have "\<dots> \<le> length s" unfolding rest by (rule length_dropWhile_le)
  finally show "(dropWhile is_space rest, s) \<in> measure length" by simp
qed

declare split_ws.simps [simp del]

text \<open>\<^verbatim>\<open>words.join(' ')\<close>.\<close>

fun join_sp :: "string list \<Rightarrow> string" where
  "join_sp [] = []"
| "join_sp [w] = w"
| "join_sp (w # v # ws) = w @ '' '' @ join_sp (v # ws)"

subsection \<open>textAnalysis.ts\<close>

text \<open>
  \<^verbatim>\<open>text.trim().split(/\s+/).filter(word => word.length > 0)\<close>, the word sequence that
  \<^verbatim>\<open>countWords\<close> measures.
\<close>

definition wordsOf :: "string \<Rightarrow> string list" where
  "wordsOf text = filter (\<lambda>word. length word > 0) (split_ws (trim text))"

fun countWords :: "js_value \<Rightarrow> nat" where
  "countWords (JString text) = (if text = [] then 0 else length (wordsOf text))"
| "countWords _ = 0"

text \<open>\<^verbatim>\<open>Math.ceil(characters / 4)\<close> on a natural number of characters.\<close>

fun countTokens :: "js_value \<Rightarrow> nat" where
  "countTokens (JString text) = (if text = [] then 0 else (length text + 3) div 4)"
| "countTokens _ = 0"

record text_analysis =
  wordCount :: nat
  tokenCount :: nat

fun analyzeText :: "js_value \<Rightarrow> text_analysis" where
  "analyzeText (JString text) =
     (if text = [] then \<lparr>wordCount = 0, tokenCount = 0\<rparr>
      else \<lparr>wordCount = countWords (JString text), tokenCount = countTokens (JString text)\<rparr>)"
| "analyzeText _ = \<lparr>wordCount = 0, tokenCount = 0\<rparr>"

fun contentToText :: "js_value \<Rightarrow> string" where
  "contentToText (JString s) = s"
| "contentToText (JObject rendered) = rendered"
| "contentToText (JOther rendered) = rendered"

section \<open>documentChunking.ts\<close>

definition MAX_TOKENS_PER_CHUNK :: int where
  "MAX_TOKENS_PER_CHUNK = 10000"

definition TOKEN_OVERLAP :: int where
  "TOKEN_OVERLAP = 200"

text \<open>The variables of the word loop of \<^verbatim>\<open>chunkTextByTokens\<close>.\<close>

record chunk_state =
  chunks :: "string list"
  currentChunk :: string
  currentTokens :: nat
  overlapWords :: "string list"

definition chunk_init :: chunk_state where
  "chunk_init = \<lparr>chunks = [], currentChunk = [], currentTokens = 0, overlapWords = []\<rparr>"

text \<open>
  The test of the loop body: adding the word would exceed the limit, and the current
  chunk is not empty.
\<close>

definition overflows :: "int \<Rightarrow> chunk_state \<Rightarrow> string \<Rightarrow> bool" where
  "overflows maxTokens st word =
     (let wordWithSpace = (if currentChunk st \<noteq> [] then '' '' @ word else word);
          testChunk = currentChunk st @ wordWithSpace;
          testTokens = countTokens (JString testChunk)
      in int testTokens > maxTokens \<and> currentChunk st \<noteq> [])"

text \<open>
  The last statements of the loop body: the word is pushed on the overlap buffer, and
  the oldest word is shifted out when the buffer holds more than 50 words and its text
  counts more than \<open>overlapTokens\<close> tokens.
\<close>

definition track_overlap :: "int \<Rightarrow> string list \<Rightarrow> string \<Rightarrow> string list" where
  "track_overlap overlapTokens tracked word =
     (let pushed = tracked @ [word]
      in if length pushed > 50 then
           (let overlapTestText = join_sp pushed
            in if int (countTokens (JString overlapTestText)) > overlapTokens
               then tl pushed else pushed)
         else pushed)"

text \<open>One iteration of the loop, on the word \<open>words[i]\<close>.\<close>

definition chunk_step :: "int \<Rightarrow> int \<Rightarrow> chunk_state \<Rightarrow> string \<Rightarrow> chunk_state" where
  "chunk_step maxTokens overlapTokens st word =
     (let wordWithSpace = (if currentChunk st \<noteq> [] then '' '' @ word else word);
          testChunk = currentChunk st @ wordWithSpace;
          testTokens = countTokens (JString testChunk);
          st1 =
            (if overflows maxTokens st word then
               (let overlapText = join_sp (overlapWords st);
                    newChunk = overlapText @ (if overlapText \<noteq> [] then '' '' @ word else word)
                in st\<lparr>chunks := chunks st @ [currentChunk st],
                      currentChunk := newChunk,
                      currentTokens := countTokens (JString newChunk),
                      overlapWords := []\<rparr>)
             else st\<lparr>currentChunk := testChunk, currentTokens := testTokens\<rparr>)
      in st1\<lparr>overlapWords := track_overlap overlapTokens (overlapWords st1) word\<rparr>)"

primrec chunk_loop :: "int \<Rightarrow> int \<Rightarrow> chunk_state \<Rightarrow> string list \<Rightarrow> chunk_state" where
  "chunk_loop maxTokens overlapTokens st [] = st"
| "chunk_loop maxTokens overlapTokens st (word # rest) =
     chunk_loop maxTokens overlapTokens (chunk_step maxTokens overlapTokens st word) rest"

text \<open>The statements after the loop: the final chunk is added if it has content.\<close>

definition final_chunks :: "chunk_state \<Rightarrow> string list" where
  "final_chunks st =
     (if currentChunk st \<noteq> [] then chunks st @ [currentChunk st] else chunks st)"

fun chunkTextByTokens :: "js_value \<Rightarrow> int \<Rightarrow> int \<Rightarrow> string list" where
  "chunkTextByTokens (JString text) maxTokens overlapTokens =
     (if text = [] then []
      else
        (let words = split_ws (trim text);
             totalTokens = countTokens (JString text)
         in if int totalTokens \<le> maxTokens then [text]
            else
              (let result = final_chunks (chunk_loop maxTokens overlapTokens chunk_init words)
               in if length result > 0 then result else [text])))"
| "chunkTextByTokens _ maxTokens overlapTokens = []"

definition shouldChunkDocumentByTokens :: "js_value \<Rightarrow> int \<Rightarrow> bool" where
  "shouldChunkDocumentByTokens content maxTokens =
     (let text = contentToText content;
          tokenCount = countTokens (JString text)
      in int tokenCount > maxTokens)"

record chunk_plan =
  plan_chunks :: "string list"
  originalTokenCount :: nat
  chunkCount :: nat
  needsChunking :: bool
  plan_text :: string

definition chunkDocumentByTokens :: "js_value \<Rightarrow> int \<Rightarrow> int \<Rightarrow> chunk_plan" where
  "chunkDocumentByTokens content maxTokens overlapTokens =
     (let text = contentToText content;
          originalTokenCount = countTokens (JString text);
          needsChunking = (int originalTokenCount > maxTokens)
      in if \<not> needsChunking then
           \<lparr>plan_chunks = [text], originalTokenCount = originalTokenCount, chunkCount = 1,
            needsChunking = False, plan_text = text\<rparr>
         else
           (let chunks = chunkTextByTokens (JString text) maxTokens overlapTokens
            in \<lparr>plan_chunks = chunks, originalTokenCount = originalTokenCount,
                chunkCount = length chunks, needsChunking = True, plan_text = text\<rparr>))"

subsection \<open>The retry with a chosen number of parts\<close>

text \<open>
  \<^verbatim>\<open>handleRetryFile\<close> of the upload page. The retry is chunked when the user did not ask
  for the original file and the selected chunk count is set and greater than 1.
\<close>

definition shouldChunkRetry :: "bool \<Rightarrow> nat option \<Rightarrow> bool" where
  "shouldChunkRetry retryAsOriginal selectedChunkCount =
     (\<not> retryAsOriginal \<and>
      (case selectedChunkCount of None \<Rightarrow> False | Some n \<Rightarrow> n \<noteq> 0 \<and> n > 1))"

definition targetTokensPerChunk :: "string \<Rightarrow> nat \<Rightarrow> nat" where
  "targetTokensPerChunk fileContent parts =
     (let documentTokens = countTokens (JString fileContent);
          idealTokensPerChunk = documentTokens div parts
      in max idealTokensPerChunk 500)"

text \<open>
  The plan of the chunked retry, \<open>None\<close> when the original file is uploaded again. The
  call leaves the overlap to its default.
\<close>

definition retryChunkPlan :: "bool \<Rightarrow> nat option \<Rightarrow> string \<Rightarrow> chunk_plan option" where
  "retryChunkPlan retryAsOriginal selectedChunkCount fileContent =
     (case selectedChunkCount of
        None \<Rightarrow> None
      | Some selected \<Rightarrow>
          if \<not> shouldChunkRetry retryAsOriginal selectedChunkCount then None
          else Some (chunkDocumentByTokens (JString fileContent)
                       (int (targetTokensPerChunk fileContent selected)) TOKEN_OVERLAP))"

section \<open>groq-summary.service.ts\<close>

record DocumentChunk =
  content :: js_value
  chunkIndex :: "nat option"

record SummaryRequest =
  documentContent :: js_value
  documentChunks :: "DocumentChunk list option"
  extractionScope :: string
  scopeDescription :: string
  filename :: string

record SummaryResponse =
  response_filename :: string
  summary :: string
  response_chunkCount :: nat
  response_wordCount :: nat
  response_tokenCount :: nat
  success :: bool
  error :: "string option"

text \<open>
  The remote service is outside the repository. A request is the prompt sent to it: the
  two prompts are fixed texts around the values interpolated into them, which a request
  carries. The service either fails, and the client throws an error with a message, or
  answers with the content of the first choice, which may be null.
\<close>

datatype groq_request =
    ChunkPrompt (prompt_scope: string) (prompt_description: string) (prompt_chunkInfo: string)
      (prompt_content: string)
  | CombinePrompt (prompt_filename: string) (prompt_summaries: string)

datatype groq_completion = Rejected string | Completed "string option"

text \<open>
  The service as a function of the number of requests made before and of the request;
  the requests made so far are kept in a log, the latest last.
\<close>

type_synonym groq_api = "nat \<Rightarrow> groq_request \<Rightarrow> groq_completion"

type_synonym groq_log = "groq_request list"

text \<open>A number in a template literal: its decimal digits.\<close>

fun show_nat :: "nat \<Rightarrow> string" where
  "show_nat n =
     (if n < 10 then [char_of (48 + n)] else show_nat (n div 10) @ [char_of (48 + n mod 10)])"

declare show_nat.simps [simp del]

fun js_join :: "string \<Rightarrow> string list \<Rightarrow> string" where
  "js_join sep [] = []"
| "js_join sep [w] = w"
| "js_join sep (w # v # ws) = w @ sep @ js_join sep (v # ws)"

text \<open>
  A thrown error is \<open>Inl\<close> of its message. The content of the answer is returned, or a
  fixed text when it is null or empty; an error of the call is thrown again with a
  prefix.
\<close>

definition processDocumentChunk ::
  "groq_api \<Rightarrow> groq_log \<Rightarrow> js_value \<Rightarrow> string \<Rightarrow> string \<Rightarrow> nat \<Rightarrow> nat
     \<Rightarrow> (string + string) \<times> groq_log" where
  "processDocumentChunk api sent chunk scope description index totalChunks =
     (let contentText = contentToText chunk;
          chunkInfo =
            (if totalChunks > 1
             then '' (Part '' @ show_nat (index + 1) @ '' of '' @ show_nat totalChunks @ '')''
             else []);
          request = ChunkPrompt scope description chunkInfo contentText
      in case api (length sent) request of
           Rejected message \<Rightarrow> (Inl (''Failed to process chunk: '' @ message), sent @ [request])
         | Completed answer \<Rightarrow>
             (Inr (case answer of
                     None \<Rightarrow> ''No summary generated''
                   | Some text \<Rightarrow> if text = [] then ''No summary generated'' else text),
              sent @ [request]))"

definition combinedSummaries :: "string list \<Rightarrow> string" where
  "combinedSummaries summaries =
     js_join [CHR 0x0A, CHR 0x0A]
       (map (\<lambda>(index, summary). ''=== Part '' @ show_nat (index + 1) @ '' ==='' @ [CHR 0x0A] @ summary)
          (enumerate 0 summaries))"

definition combineSummaries ::
  "groq_api \<Rightarrow> groq_log \<Rightarrow> string list \<Rightarrow> string \<Rightarrow> string \<Rightarrow> string
     \<Rightarrow> (string + string) \<times> groq_log" where
  "combineSummaries api sent summaries scope description name =
     (let request = CombinePrompt name (combinedSummaries summaries)
      in case api (length sent) request of
           Rejected message \<Rightarrow> (Inl (''Failed to combine summaries: '' @ message), sent @ [request])
         | Completed answer \<Rightarrow>
             (Inr (case answer of
                     None \<Rightarrow> ''No final summary generated''
                   | Some text \<Rightarrow> if text = [] then ''No final summary generated'' else text),
              sent @ [request]))"

text \<open>
  The loop over the chunks of a document, from index \<open>i\<close> on: each summary is pushed on
  \<open>chunkSummaries\<close>, and the first error leaves the loop.
\<close>

fun process_chunks ::
  "groq_api \<Rightarrow> groq_log \<Rightarrow> string \<Rightarrow> string \<Rightarrow> nat \<Rightarrow> nat \<Rightarrow> string list \<Rightarrow> js_value list
     \<Rightarrow> (string + string list) \<times> groq_log" where
  "process_chunks api sent scope description totalChunks i chunkSummaries [] =
     (Inr chunkSummaries, sent)"
| "process_chunks api sent scope description totalChunks i chunkSummaries (chunk # rest) =
     (case processDocumentChunk api sent chunk scope description i totalChunks of
        (Inl message, sent') \<Rightarrow> (Inl message, sent')
      | (Inr chunkSummary, sent') \<Rightarrow>
          process_chunks api sent' scope description totalChunks (i + 1)
            (chunkSummaries @ [chunkSummary]) rest)"

definition failed_response :: "SummaryRequest \<Rightarrow> string \<Rightarrow> SummaryResponse" where
  "failed_response request message =
     \<lparr>response_filename = filename request, summary = [], response_chunkCount = 0,
      response_wordCount = 0, response_tokenCount = 0, success = False,
      error = Some message\<rparr>"

text \<open>
  \<^verbatim>\<open>summarizeDocument\<close>, with the requests it made. Whatever is thrown inside is caught
  and turned into a failed response.
\<close>

definition summarizeDocument :: "groq_api \<Rightarrow> SummaryRequest \<Rightarrow> SummaryResponse \<times> groq_log" where
  "summarizeDocument api request =
     (let chunks =
            (case documentChunks request of
               Some pieces \<Rightarrow> map content pieces
             | None \<Rightarrow> [documentContent request]);
          chunkCount = length chunks;
          analyses = map (\<lambda>chunk. analyzeText (JString (contentToText chunk))) chunks;
          totalWordCount = sum_list (map wordCount analyses);
          totalTokenCount = sum_list (map tokenCount analyses)
      in if chunkCount = 1 then
           (case processDocumentChunk api [] (hd chunks) (extractionScope request)
                   (scopeDescription request) 0 1 of
              (Inl message, sent) \<Rightarrow> (failed_response request message, sent)
            | (Inr text, sent) \<Rightarrow>
                (\<lparr>response_filename = filename request, summary = text, response_chunkCount = 1,
                  response_wordCount = totalWordCount, response_tokenCount = totalTokenCount,
                  success = True, error = None\<rparr>, sent))
         else
           (case process_chunks api [] (extractionScope request) (scopeDescription request)
                   (length chunks) 0 [] chunks of
              (Inl message, sent) \<Rightarrow> (failed_response request message, sent)
            | (Inr chunkSummaries, sent) \<Rightarrow>
                (case combineSummaries api sent chunkSummaries (extractionScope request)
                        (scopeDescription request) (filename request) of
                   (Inl message, sent') \<Rightarrow> (failed_response request message, sent')
                 | (Inr finalSummary, sent') \<Rightarrow>
                     (\<lparr>response_filename = filename request, summary = finalSummary,
                       response_chunkCount = length chunks,
                       response_wordCount = totalWordCount,
                       response_tokenCount = totalTokenCount,
                       success = True, error = None\<rparr>, sent'))))"

section \<open>Definitions for the statements\<close>

text \<open>
  The number of words as the specification words it, without trimming or splitting: a
  word starts at every character that is not white space and is the first character or
  follows white space. \<open>after_space\<close> tells whether the preceding character was white
  space (or there was none).
\<close>

fun word_starts :: "bool \<Rightarrow> string \<Rightarrow> nat" where
  "word_starts after_space [] = 0"
| "word_starts after_space (c # cs) =
     (if is_space c then word_starts True cs
      else (if after_space then 1 else 0) + word_starts False cs)"

section \<open>Text metrics\<close>

lemma countTokens_JString [simp]: "countTokens (JString s) = (length s + 3) div 4"
  by simp

declare countTokens.simps(1) [simp del]

lemma countTokens_ceiling: "int (countTokens (JString s)) = \<lceil>real (length s) / 4\<rceil>"
proof -
  have "\<lceil>real (length s) / 4\<rceil> = \<lceil>real_of_int (int (length s)) / real_of_int 4\<rceil>" by simp
  also have "\<dots> = - ((- int (length s)) div 4)" unfolding ceiling_divide_eq_div by simp
  also have "\<dots> = (int (length s) + 3) div 4" by presburger
  also have "\<dots> = int ((length s + 3) div 4)" by (simp add: zdiv_int)
  finally show ?thesis by simp
qed

lemma word_starts_dropWhile: "word_starts True (dropWhile is_space s) = word_starts True s"
  by (induction s) auto

lemma word_starts_at_space:
  "s = [] \<or> is_space (hd s) \<Longrightarrow> word_starts b s = word_starts True (dropWhile is_space s)"
  by (cases s) (auto simp: word_starts_dropWhile)

lemma word_starts_run:
  "\<forall>c\<in>set p. \<not> is_space c \<Longrightarrow> p \<noteq> [] \<Longrightarrow>
     word_starts b (p @ r) = (if b then 1 else 0) + word_starts False r"
proof (induction p arbitrary: b)
  case Nil then show ?case by simp
next
  case (Cons c p)
  then show ?case by (cases "p = []") auto
qed

lemma word_starts_spaces: "\<forall>c\<in>set t. is_space c \<Longrightarrow> word_starts b t = 0"
  by (induction t arbitrary: b) auto

lemma word_starts_trailing:
  "\<forall>c\<in>set t. is_space c \<Longrightarrow> word_starts b (xs @ t) = word_starts b xs"
  by (induction xs arbitrary: b) (auto simp: word_starts_spaces)

lemma word_starts_piece:
  assumes "\<forall>c\<in>set p. \<not> is_space c" and "r = [] \<or> is_space (hd r)"
  shows "word_starts True (p @ r)
     = (if p = [] then 0 else 1) + (if r = [] then 0 else word_starts True (dropWhile is_space r))"
proof (cases "p = []")
  case True
  have "word_starts True r = word_starts True (dropWhile is_space r)"
    by (rule word_starts_at_space[OF assms(2)])
  moreover have "r = [] \<Longrightarrow> word_starts True r = 0" by simp
  ultimately show ?thesis using True by (cases "r = []") simp_all
next
  case False
  have "word_starts True (p @ r) = 1 + word_starts False r"
    using word_starts_run[OF assms(1) False, of True r] by simp
  moreover have "word_starts False r = word_starts True (dropWhile is_space r)"
    by (rule word_starts_at_space[OF assms(2)])
  moreover have "r = [] \<Longrightarrow> word_starts False r = 0" by simp
  ultimately show ?thesis using False by (cases "r = []") simp_all
qed

lemma split_ws_count:
  "length (filter (\<lambda>w. w \<noteq> []) (split_ws s)) = word_starts True s"
proof (induction s rule: split_ws.induct)
  case (1 s)
  let ?p = "takeWhile (\<lambda>c. \<not> is_space c) s"
  let ?r = "dropWhile (\<lambda>c. \<not> is_space c) s"
  let ?n = "\<lambda>t. length (filter (\<lambda>w. w \<noteq> []) (split_ws t))"
  have L: "?n s = (if ?p = [] then 0 else 1) + (if ?r = [] then 0 else ?n (dropWhile is_space ?r))"
    by (subst split_ws.simps) (simp add: Let_def)
  have p: "\<forall>c\<in>set ?p. \<not> is_space c"
    using set_takeWhileD[of _ "\<lambda>c. \<not> is_space c" s] by blast
  have r: "?r = [] \<or> is_space (hd ?r)"
    using hd_dropWhile[of "\<lambda>c. \<not> is_space c" s] by blast
  have R: "word_starts True (?p @ ?r)
      = (if ?p = [] then 0 else 1) + (if ?r = [] then 0 else word_starts True (dropWhile is_space ?r))"
    by (rule word_starts_piece[OF p r])
  have S: "word_starts True (?p @ ?r) = word_starts True s"
    by (simp only: takeWhile_dropWhile_id)
  show ?case
  proof (cases "?r = []")
    case True
    from L have "?n s = (if ?p = [] then 0 else 1) + 0"
      by (simp only: True simp_thms if_True)
    moreover from R have "word_starts True (?p @ ?r) = (if ?p = [] then 0 else 1) + 0"
      by (simp only: True simp_thms if_True)
    ultimately have "?n s = word_starts True (?p @ ?r)" by (rule trans[OF _ sym])
    then show ?thesis by (simp only: S)
  next
    case False
    have IH: "?n (dropWhile is_space ?r) = word_starts True (dropWhile is_space ?r)"
      by (rule "1.IH"[OF refl refl False])
    from L have "?n s = (if ?p = [] then 0 else 1) + ?n (dropWhile is_space ?r)"
      by (simp only: False if_False)
    moreover from R have "word_starts True (?p @ ?r)
        = (if ?p = [] then 0 else 1) + ?n (dropWhile is_space ?r)"
      by (simp only: False if_False IH)
    ultimately have "?n s = word_starts True (?p @ ?r)" by (rule trans[OF _ sym])
    then show ?thesis by (simp only: S)
  qed
qed
lemma word_starts_trim: "word_starts True (trim s) = word_starts True s"
proof -
  define u where "u = dropWhile is_space s"
  have "rev u = takeWhile is_space (rev u) @ dropWhile is_space (rev u)" by simp
  then have "u = rev (dropWhile is_space (rev u)) @ rev (takeWhile is_space (rev u))"
    by (metis rev_append rev_rev_ident)
  moreover have "\<forall>c\<in>set (rev (takeWhile is_space (rev u))). is_space c"
    using set_takeWhileD[of _ is_space "rev u"] by auto
  ultimately have "word_starts True u = word_starts True (rev (dropWhile is_space (rev u)))"
    using word_starts_trailing by metis
  then show ?thesis by (simp add: trim_def u_def word_starts_dropWhile)
qed

lemma countWords_word_starts: "countWords (JString text) = word_starts True text"
  by (simp add: wordsOf_def split_ws_count word_starts_trim)

text \<open>
  Claim C8. For every string, \<open>countTokens\<close> is the ceiling of a quarter of its length;
  \<open>countWords\<close> counts the non-empty pieces between white space of the trimmed text,
  which are the words of the text; \<open>analyzeText\<close> gives 0 and 0 for the empty string
  and for a value that is not a string, and its two counts are the natural numbers that
  \<open>countWords\<close> and \<open>countTokens\<close> give.
\<close>

theorem text_metrics:
  "int (countTokens (JString text)) = \<lceil>real (length text) / 4\<rceil>
   \<and> countWords (JString text) = length (filter (\<lambda>w. w \<noteq> []) (split_ws (trim text)))
   \<and> countWords (JString text) = word_starts True text
   \<and> analyzeText (JString []) = \<lparr>wordCount = 0, tokenCount = 0\<rparr>
   \<and> analyzeText (JObject rendered) = \<lparr>wordCount = 0, tokenCount = 0\<rparr>
   \<and> analyzeText (JOther rendered) = \<lparr>wordCount = 0, tokenCount = 0\<rparr>
   \<and> wordCount (analyzeText v) = countWords v \<and> tokenCount (analyzeText v) = countTokens v
   \<and> 0 \<le> int (wordCount (analyzeText v)) \<and> 0 \<le> int (tokenCount (analyzeText v))"
proof (intro conjI)
  show "int (countTokens (JString text)) = \<lceil>real (length text) / 4\<rceil>"
    by (rule countTokens_ceiling)
  show "countWords (JString text) = length (filter (\<lambda>w. w \<noteq> []) (split_ws (trim text)))"
    by (cases "text = []") (simp_all add: wordsOf_def trim_def split_ws.simps[of "[]"])
  show "countWords (JString text) = word_starts True text"
    by (rule countWords_word_starts)
  show "wordCount (analyzeText v) = countWords v" by (cases v) auto
  show "tokenCount (analyzeText v) = countTokens v" by (cases v) auto
qed simp_all

theorem text_metrics_witness:
  "int (countTokens (JString '' ab  cde f '')) = \<lceil>real (length '' ab  cde f '') / 4\<rceil>
   \<and> countWords (JString '' ab  cde f '') = 3
   \<and> analyzeText (JString []) = \<lparr>wordCount = 0, tokenCount = 0\<rparr>
   \<and> wordCount (analyzeText (JString '' ab  cde f '')) = 3"
proof -
  note m = text_metrics[of "'' ab  cde f ''" undefined "JString '' ab  cde f ''"]
  have starts: "word_starts True '' ab  cde f '' = 3" by (simp add: is_space_def)
  note tokens = m[THEN conjunct1]
  note words' = m[THEN conjunct2, THEN conjunct2, THEN conjunct1]
  note empty = m[THEN conjunct2, THEN conjunct2, THEN conjunct2, THEN conjunct1]
  note analysis' = m[THEN conjunct2, THEN conjunct2, THEN conjunct2, THEN conjunct2,
      THEN conjunct2, THEN conjunct2, THEN conjunct1]
  from words' starts have words: "countWords (JString '' ab  cde f '') = 3" by (rule trans)
  from analysis' words have analysis: "wordCount (analyzeText (JString '' ab  cde f '')) = 3"
    by (rule trans)
  show ?thesis by (intro conjI tokens words empty analysis)
qed

section \<open>Documents that fit, and the empty document\<close>

text \<open>
  Claim C3, as amended. For every text that is not empty and whose token count is at
  most \<open>maxTokens\<close>, \<open>chunkTextByTokens\<close> returns the text as its one chunk; and for
  every content whose text counts at most \<open>maxTokens\<close> tokens, the empty text included,
  \<open>chunkDocumentByTokens\<close> returns a plan that needs no chunking, with the text as
  its one chunk and a chunk count of 1.
\<close>

theorem no_op_below_budget:
  assumes "int (countTokens (JString (contentToText doc))) \<le> maxTokens"
  shows "(contentToText doc \<noteq> [] \<longrightarrow>
           chunkTextByTokens (JString (contentToText doc)) maxTokens overlapTokens
             = [contentToText doc])
       \<and> needsChunking (chunkDocumentByTokens doc maxTokens overlapTokens) = False
       \<and> plan_chunks (chunkDocumentByTokens doc maxTokens overlapTokens)
             = [contentToText doc]
       \<and> chunkCount (chunkDocumentByTokens doc maxTokens overlapTokens) = 1"
  using assms by (simp add: chunkDocumentByTokens_def Let_def)

theorem no_op_below_budget_witness:
  "int (countTokens (JString (contentToText (JString ''hello world'')))) \<le> 100
   \<and> chunkTextByTokens (JString ''hello world'') 100 10 = [''hello world'']
   \<and> needsChunking (chunkDocumentByTokens (JString ''hello world'') 100 10) = False
   \<and> plan_chunks (chunkDocumentByTokens (JString ''hello world'') 100 10) = [''hello world'']
   \<and> chunkCount (chunkDocumentByTokens (JString ''hello world'') 100 10) = 1"
proof -
  have h: "int (countTokens (JString (contentToText (JString ''hello world'')))) \<le> 100"
    by simp
  show ?thesis using h no_op_below_budget[OF h, of 10] by simp
qed

text \<open>
  The claim as it was stated fails at the empty text, which counts 0 tokens and is
  chunked into no chunk at all.
\<close>

theorem no_op_empty_text_counterexample:
  "int (countTokens (JString [])) \<le> 100 \<and> chunkTextByTokens (JString []) 100 10 \<noteq> [[]]"
  by simp

text \<open>
  Claim C10. \<open>chunkTextByTokens\<close> returns no chunk for the empty string and for a value
  that is not a string, while \<open>chunkDocumentByTokens\<close>, under a budget that is not
  negative, plans one empty chunk for the empty string, with a chunk count of 1 and no
  chunking needed: zero fragments from one entry point, one from the other.
\<close>

theorem empty_input_edge:
  assumes "0 \<le> maxTokens"
  shows "chunkTextByTokens (JString []) maxTokens overlapTokens = []
       \<and> chunkTextByTokens (JObject rendered) maxTokens overlapTokens = []
       \<and> chunkTextByTokens (JOther rendered) maxTokens overlapTokens = []
       \<and> needsChunking (chunkDocumentByTokens (JString []) maxTokens overlapTokens) = False
       \<and> plan_chunks (chunkDocumentByTokens (JString []) maxTokens overlapTokens) = [[]]
       \<and> chunkCount (chunkDocumentByTokens (JString []) maxTokens overlapTokens) = 1
       \<and> length (chunkTextByTokens (JString []) maxTokens overlapTokens) = 0
       \<and> length (plan_chunks (chunkDocumentByTokens (JString []) maxTokens overlapTokens)) = 1"
  using assms by (simp add: chunkDocumentByTokens_def Let_def)

theorem empty_input_edge_witness:
  "(0::int) \<le> MAX_TOKENS_PER_CHUNK
   \<and> chunkTextByTokens (JString []) MAX_TOKENS_PER_CHUNK TOKEN_OVERLAP = []
   \<and> plan_chunks (chunkDocumentByTokens (JString []) MAX_TOKENS_PER_CHUNK TOKEN_OVERLAP) = [[]]
   \<and> chunkCount (chunkDocumentByTokens (JString []) MAX_TOKENS_PER_CHUNK TOKEN_OVERLAP) = 1
   \<and> \<not> needsChunking (chunkDocumentByTokens (JString []) MAX_TOKENS_PER_CHUNK TOKEN_OVERLAP)"
proof -
  have h: "(0::int) \<le> MAX_TOKENS_PER_CHUNK" by (simp add: MAX_TOKENS_PER_CHUNK_def)
  show ?thesis using h empty_input_edge[OF h, where overlapTokens = TOKEN_OVERLAP] by simp
qed

text \<open>
  Claim C9. When a retry is chunked into \<open>k\<close> parts, the budget passed to
  \<open>chunkDocumentByTokens\<close> is the greater of 500 and the floor of the token count of
  the file content divided by \<open>k\<close>; a content of 12500 tokens with \<open>k = 5\<close> is
  chunked under a budget of 2500.
\<close>

theorem retry_budget:
  assumes "shouldChunkRetry retryAsOriginal (Some k)"
  shows "retryChunkPlan retryAsOriginal (Some k) fileContent
           = Some (chunkDocumentByTokens (JString fileContent)
                     (max \<lfloor>real (countTokens (JString fileContent)) / real k\<rfloor> 500)
                     TOKEN_OVERLAP)
       \<and> (countTokens (JString fileContent) = 12500 \<and> k = 5 \<longrightarrow>
            retryChunkPlan retryAsOriginal (Some k) fileContent
              = Some (chunkDocumentByTokens (JString fileContent) 2500 TOKEN_OVERLAP))"
proof -
  have "\<lfloor>real (countTokens (JString fileContent)) / real k\<rfloor>
          = int (countTokens (JString fileContent) div k)"
    by (rule floor_divide_of_nat_eq)
  then have eq: "int (targetTokensPerChunk fileContent k)
          = max \<lfloor>real (countTokens (JString fileContent)) / real k\<rfloor> 500"
    by (simp add: targetTokensPerChunk_def Let_def)
  have plan: "retryChunkPlan retryAsOriginal (Some k) fileContent
           = Some (chunkDocumentByTokens (JString fileContent)
                     (int (targetTokensPerChunk fileContent k)) TOKEN_OVERLAP)"
    using assms by (simp add: retryChunkPlan_def)
  show ?thesis
  proof (intro conjI impI)
    show "retryChunkPlan retryAsOriginal (Some k) fileContent
           = Some (chunkDocumentByTokens (JString fileContent)
                     (max \<lfloor>real (countTokens (JString fileContent)) / real k\<rfloor> 500)
                     TOKEN_OVERLAP)"
      using plan eq by simp
  next
    assume "countTokens (JString fileContent) = 12500 \<and> k = 5"
    then have "int (targetTokensPerChunk fileContent k) = 2500"
      by (simp add: targetTokensPerChunk_def Let_def)
    then show "retryChunkPlan retryAsOriginal (Some k) fileContent
              = Some (chunkDocumentByTokens (JString fileContent) 2500 TOKEN_OVERLAP)"
      using plan by simp
  qed
qed

theorem retry_budget_witness:
  "shouldChunkRetry False (Some 5)
   \<and> countTokens (JString (replicate 50000 (CHR ''a''))) = 12500
   \<and> retryChunkPlan False (Some 5) (replicate 50000 (CHR ''a''))
       = Some (chunkDocumentByTokens (JString (replicate 50000 (CHR ''a''))) 2500 TOKEN_OVERLAP)"
proof -
  have h: "shouldChunkRetry False (Some 5)" by (simp add: shouldChunkRetry_def)
  have t: "countTokens (JString (replicate 50000 (CHR ''a''))) = 12500" by simp
  show ?thesis using h t retry_budget[OF h, of "replicate 50000 (CHR ''a'')"] by blast
qed


end
